theory Spec2Isabelle
  imports Complex_Main
begin

section \<open>Numbers\<close>

text \<open>
  A TypeScript \<open>number\<close> is an IEEE 754 binary64 value: \<open>NaN\<close>, the two infinities, the
  two zeros, or a non-zero finite number.  \<open>Finite x\<close> is the finite number with the
  real value \<open>x\<close>; \<open>Finite 0\<close> is \<open>+0\<close> and \<open>NegZero\<close> is \<open>-0\<close>.
\<close>

datatype js_number = NaN | PosInfinity | NegInfinity | NegZero | Finite real

definition isNaN :: "js_number \<Rightarrow> bool" where
  "isNaN a = (a = NaN)"

definition isInfinite :: "js_number \<Rightarrow> bool" where
  "isInfinite a = (a = PosInfinity \<or> a = NegInfinity)"

definition isZero :: "js_number \<Rightarrow> bool" where
  "isZero a = (a = NegZero \<or> a = Finite 0)"

definition isFinite :: "js_number \<Rightarrow> bool" where
  "isFinite a = (\<not> isNaN a \<and> \<not> isInfinite a)"

fun toReal :: "js_number \<Rightarrow> real" where
  "toReal (Finite x) = x"
| "toReal a = 0"


definition signedInfinity :: "bool \<Rightarrow> js_number" where
  "signedInfinity neg = (if neg then NegInfinity else PosInfinity)"

definition signedZero :: "bool \<Rightarrow> js_number" where
  "signedZero neg = (if neg then NegZero else Finite 0)"

subsection \<open>Rounding to the nearest binary64 value\<close>







subsection \<open>Arithmetic and comparison\<close>







text \<open>\<open>a < b\<close> and \<open>a <= b\<close>: false whenever an operand is \<open>NaN\<close>.\<close>

definition js_lt :: "js_number \<Rightarrow> js_number \<Rightarrow> bool" where
  "js_lt a b =
     (\<not> isNaN a \<and> \<not> isNaN b \<and> a \<noteq> PosInfinity \<and> b \<noteq> NegInfinity
      \<and> (a = NegInfinity \<or> b = PosInfinity \<or> toReal a < toReal b))"


text \<open>
  \<open>Math.max\<close> and \<open>Math.min\<close> of two arguments: \<open>NaN\<close> if either is \<open>NaN\<close>; \<open>+0\<close> counts
  as larger than \<open>-0\<close>.
\<close>

definition Math_max :: "js_number \<Rightarrow> js_number \<Rightarrow> js_number" where
  "Math_max a b =
     (if isNaN a \<or> isNaN b then NaN
      else if js_lt a b then b
      else if js_lt b a then a
      else if a = NegZero then b else a)"

definition Math_min :: "js_number \<Rightarrow> js_number \<Rightarrow> js_number" where
  "Math_min a b =
     (if isNaN a \<or> isNaN b then NaN
      else if js_lt a b then a
      else if js_lt b a then b
      else if a = NegZero then a else b)"

section \<open>frontend/src/lib/utils.ts\<close>

subsection \<open>Mood quadrants\<close>

text \<open>
  The two quadrant functions only compare their arguments with \<open>0.15\<close> and \<open>-0.15\<close>
  and are stated on real coordinates.  (A \<open>NaN\<close> argument fails all four tests of
  either function and reaches its last, neutral branch.)
\<close>

definition getMoodLabel :: "real \<Rightarrow> real \<Rightarrow> string" where
  "getMoodLabel valence arousal =
     (if valence > 0.15 \<and> arousal > 0.15 then ''Excited / Joyful''
      else if valence > 0.15 \<and> arousal < - 0.15 then ''Calm / Content''
      else if valence < - 0.15 \<and> arousal > 0.15 then ''Tense / Anxious''
      else if valence < - 0.15 \<and> arousal < - 0.15 then ''Melancholic / Sad''
      else ''Neutral / Balanced'')"

definition getScentFamilies :: "real \<Rightarrow> real \<Rightarrow> string list" where
  "getScentFamilies valence arousal =
     (if valence > 0.15 \<and> arousal > 0.15 then
        [''Citrus'', ''Fresh'', ''Fruity'', ''Sparkling'']
      else if valence > 0.15 \<and> arousal < - 0.15 then
        [''Woody'', ''Floral'', ''Musky'', ''Amber'']
      else if valence < - 0.15 \<and> arousal > 0.15 then
        [''Herbal'', ''Green'', ''Aquatic'', ''Aromatic'']
      else if valence < - 0.15 \<and> arousal < - 0.15 then
        [''Resinous'', ''Ambery'', ''Earthy'', ''Smoky'']
      else [''Woody'', ''Aromatic'', ''Floral'', ''Balanced''])"

subsection \<open>Numeric helpers\<close>

text \<open>\<open>clamp(value, min, max) = Math.min(Math.max(value, min), max)\<close>.\<close>

definition clamp :: "js_number \<Rightarrow> js_number \<Rightarrow> js_number \<Rightarrow> js_number" where
  "clamp val min_v max_v = Math_min (Math_max val min_v) max_v"


section \<open>The result page\<close>

text \<open>
  The page component keeps the formula it shows in its state, initialised with the
  constant \<open>sampleFormula\<close>.  The static type of that constant is the record type below;
  the field names are those of the object literal.
\<close>

record Note =
  name :: string
  concentration :: real
  sustainable :: bool

record Metrics =
  longevity :: real
  projection :: real
  uniqueness :: real
  sustainability :: real
  ifraCompliance :: real

record Formula =
  name :: string
  description :: string
  topNotes :: "Note list"
  middleNotes :: "Note list"
  baseNotes :: "Note list"
  metrics :: Metrics

definition sampleFormula :: Formula where
  "sampleFormula = \<lparr>
     Formula.name = ''Kyoto Morning Rain'',
     description = ''A contemplative blend capturing the essence of dawn in a Japanese garden, where petrichor meets ancient cypress.'',
     topNotes = [
       \<lparr>Note.name = ''Yuzu'', concentration = 8, sustainable = True\<rparr>,
       \<lparr>Note.name = ''Green Tea Accord'', concentration = 5, sustainable = True\<rparr>,
       \<lparr>Note.name = ''Pink Pepper'', concentration = 3, sustainable = False\<rparr>],
     middleNotes = [
       \<lparr>Note.name = ''Hinoki Wood'', concentration = 15, sustainable = True\<rparr>,
       \<lparr>Note.name = ''Iris Pallida'', concentration = 12, sustainable = True\<rparr>,
       \<lparr>Note.name = ''Shiso Leaf'', concentration = 8, sustainable = True\<rparr>],
     baseNotes = [
       \<lparr>Note.name = ''Vetiver Haiti'', concentration = 18, sustainable = True\<rparr>,
       \<lparr>Note.name = ''White Musk'', concentration = 12, sustainable = True\<rparr>,
       \<lparr>Note.name = ''Ambergris Accord'', concentration = 10, sustainable = False\<rparr>],
     metrics = \<lparr>longevity = 85, projection = 65, uniqueness = 92,
                sustainability = 78, ifraCompliance = 100\<rparr>\<rparr>"

subsection \<open>Export\<close>

text \<open>
  The value tree that \<open>JSON.stringify\<close> writes.  An object is the list of its
  properties in creation order, which is the order \<open>JSON.stringify\<close> emits them in.
\<close>

datatype json =
    JNull
  | JBool bool
  | JNumber real
  | JString string
  | JArray "json list"
  | JObject "(string \<times> json) list"

fun objectKeys :: "json \<Rightarrow> string list" where
  "objectKeys (JObject kvs) = map fst kvs"
| "objectKeys v = []"

fun getProperty :: "json \<Rightarrow> string \<Rightarrow> json option" where
  "getProperty (JObject kvs) k = map_of kvs k"
| "getProperty v k = None"

text \<open>\<open>JSON.stringify\<close> at the three object types of the formula.\<close>

definition stringify_note :: "Note \<Rightarrow> json" where
  "stringify_note n = JObject [
     (''name'', JString (Note.name n)),
     (''concentration'', JNumber (concentration n)),
     (''sustainable'', JBool (sustainable n))]"

definition stringify_metrics :: "Metrics \<Rightarrow> json" where
  "stringify_metrics m = JObject [
     (''longevity'', JNumber (longevity m)),
     (''projection'', JNumber (projection m)),
     (''uniqueness'', JNumber (uniqueness m)),
     (''sustainability'', JNumber (sustainability m)),
     (''ifraCompliance'', JNumber (ifraCompliance m))]"

definition stringify_formula :: "Formula \<Rightarrow> json" where
  "stringify_formula f = JObject [
     (''name'', JString (Formula.name f)),
     (''description'', JString (description f)),
     (''topNotes'', JArray (map stringify_note (topNotes f))),
     (''middleNotes'', JArray (map stringify_note (middleNotes f))),
     (''baseNotes'', JArray (map stringify_note (baseNotes f))),
     (''metrics'', stringify_metrics (metrics f))]"

text \<open>
  \<open>name.toLowerCase().replace(/\s+/g, '-')\<close> on a string of ASCII characters: every
  maximal run of white space becomes one hyphen.
\<close>

definition isSpace :: "char \<Rightarrow> bool" where
  "isSpace c = (c \<in> set [CHR 0x09, CHR 0x0A, CHR 0x0B, CHR 0x0C, CHR 0x0D, CHR '' ''])"

definition toLowerChar :: "char \<Rightarrow> char" where
  "toLowerChar c =
     (let n = (of_char c :: nat) in if 65 \<le> n \<and> n \<le> 90 then char_of (n + 32) else c)"

definition toLowerCase :: "string \<Rightarrow> string" where
  "toLowerCase s = map toLowerChar s"

fun replaceSpaceRuns :: "bool \<Rightarrow> string \<Rightarrow> string" where
  "replaceSpaceRuns inRun [] = []"
| "replaceSpaceRuns inRun (c # cs) =
     (if isSpace c then
        (if inRun then replaceSpaceRuns True cs else CHR ''-'' # replaceSpaceRuns True cs)
      else c # replaceSpaceRuns False cs)"

text \<open>
  What \<open>localStorage.getItem\<close> finds under a key, as \<open>handleExport\<close> uses it in
  \<open>x ? JSON.parse(x) : null\<close>: nothing (\<open>null\<close>, or the empty string, which is falsy
  too), a text that \<open>JSON.parse\<close> reads as a value, or a text that makes \<open>JSON.parse\<close>
  throw.
\<close>

datatype item = NoItem | JsonText json | BadText

datatype export_error = SyntaxError

definition parseOrNull :: "item \<Rightarrow> export_error + json" where
  "parseOrNull x =
     (case x of NoItem \<Rightarrow> Inr JNull | JsonText v \<Rightarrow> Inr v | BadText \<Rightarrow> Inl SyntaxError)"

record Download =
  download :: string
  content :: json

text \<open>
  \<open>handleExport\<close>, given the two stored items, the clock's \<open>toISOString()\<close> and the
  formula of the page state.  The result is the file offered for download: its name
  and the value of \<open>exportData\<close> that \<open>JSON.stringify\<close> writes into the blob.
\<close>

definition handleExport :: "item \<Rightarrow> item \<Rightarrow> string \<Rightarrow> Formula \<Rightarrow> export_error + Download" where
  "handleExport calibration neuroBrief exportedAt formula =
     (case parseOrNull calibration of
        Inl e \<Rightarrow> Inl e
      | Inr c \<Rightarrow>
          (case parseOrNull neuroBrief of
             Inl e \<Rightarrow> Inl e
           | Inr b \<Rightarrow>
               Inr \<lparr>download =
                      ''aether-formula-''
                        @ replaceSpaceRuns False (toLowerCase (Formula.name formula))
                        @ ''.json'',
                    content = JObject [
                      (''formula'', stringify_formula formula),
                      (''calibration'', c),
                      (''neuroBrief'', b),
                      (''exportedAt'', JString exportedAt)]\<rparr>))"

subsection \<open>The component's state\<close>

record ResultPageState =
  isLoading :: bool
  formula :: Formula
  showExport :: bool

definition initialState :: ResultPageState where
  "initialState = \<lparr>isLoading = True, formula = sampleFormula, showExport = False\<rparr>"

text \<open>
  The events that reach the component: the four-second timer of the effect, and the
  two buttons, which exist only once the page is rendered.  No handler calls
  \<open>setFormula\<close>.
\<close>

datatype event = TimerElapsed | ExportClicked | ShareClicked

fun step :: "ResultPageState \<Rightarrow> event \<Rightarrow> ResultPageState" where
  "step s TimerElapsed = s\<lparr>isLoading := False\<rparr>"
| "step s ExportClicked = s"
| "step s ShareClicked = (if isLoading s then s else s\<lparr>showExport := True\<rparr>)"

definition afterEvents :: "event list \<Rightarrow> ResultPageState" where
  "afterEvents es = foldl step initialState es"

text \<open>The formula on screen: none while the loading animation is returned.\<close>

definition rendered :: "ResultPageState \<Rightarrow> Formula option" where
  "rendered s = (if isLoading s then None else Some (formula s))"

subsection \<open>Totals of a formula\<close>

definition tierTotal :: "Note list \<Rightarrow> real" where
  "tierTotal notes = sum_list (map concentration notes)"

definition totalConcentration :: "Formula \<Rightarrow> real" where
  "totalConcentration f =
     tierTotal (topNotes f) + tierTotal (middleNotes f) + tierTotal (baseNotes f)"

section \<open>Renormalisation\<close>

text \<open>
  Modelled from the spec: the renormalisation step of the Physio-Correction Engine,
  a part of the backend whose source is not among the source files.  The spec words it
  as: scale every component's concentration so the grand total is exactly 100,
  preserving relative proportions within and across tiers.  Every concentration is
  multiplied by the same factor \<open>100 / total\<close>.
\<close>

definition scaleNote :: "real \<Rightarrow> Note \<Rightarrow> Note" where
  "scaleNote k n = n\<lparr>concentration := concentration n * k\<rparr>"

text \<open>
  Modelled from the spec: the renormalisation step of the Physio-Correction Engine
  (see above).  A formula whose total is zero has no scaling that reaches 100; the
  spec is silent there, and the model returns \<open>None\<close>.
\<close>

definition renormalize :: "Formula \<Rightarrow> Formula option" where
  "renormalize f =
     (let total = totalConcentration f in
      if total = 0 then None
      else Some (f\<lparr>topNotes := map (scaleNote (100 / total)) (topNotes f),
                   middleNotes := map (scaleNote (100 / total)) (middleNotes f),
                   baseNotes := map (scaleNote (100 / total)) (baseNotes f)\<rparr>))"

section \<open>Base formula generation\<close>

text \<open>
  Modelled from the spec: the tier of the note pyramid an ingredient belongs to (its
  tier affinity in the spec's data model).  The generator's source is not among the
  source files.
\<close>

datatype Tier = Top | Heart | Base

text \<open>
  Modelled from the spec: an entry of the Ingredient Catalog, with the attributes the
  generator reads: name, scent family, tier affinity and sustainability flag.
\<close>

record Ingredient =
  ingredientName :: string
  scentFamily :: string
  tierAffinity :: Tier
  sustainabilityFlag :: bool

text \<open>
  Modelled from the spec: the generator's only failure, raised when none of the
  requested families resolves to a catalog entry.
\<close>

datatype generate_error = NoResolvableIngredientsError

text \<open>
  Modelled from the spec: each requested scent family is mapped to its catalog
  entries, in the order of the request; a family without entries contributes nothing
  and is skipped silently.
\<close>

definition resolveFamilies :: "Ingredient list \<Rightarrow> string list \<Rightarrow> Ingredient list" where
  "resolveFamilies catalog scentFamilies =
     concat (map (\<lambda>family. filter (\<lambda>i. scentFamily i = family) catalog) scentFamilies)"

text \<open>
  Modelled from the spec: a tier receives the ingredients whose affinity it is, and
  its share of the pyramid is split evenly across them.
\<close>

definition tierComponents :: "real \<Rightarrow> Tier \<Rightarrow> Ingredient list \<Rightarrow> Note list" where
  "tierComponents share tier ingredients =
     (let members = filter (\<lambda>i. tierAffinity i = tier) ingredients in
      map (\<lambda>i. \<lparr>Note.name = ingredientName i,
                 concentration = share / real (length members),
                 sustainable = sustainabilityFlag i\<rparr>) members)"

text \<open>
  Modelled from the spec: the Base Formula Generator.  The resolved ingredients are
  distributed with the shares 20 (top), 35 (heart) and 45 (base); the result is
  renormalised, the spec asking for a total of exactly 100 whenever a family
  resolves; with no resolved ingredient the generator fails.  The name, description
  and scores of the result are not the generator's concern: they are those of the
  formula \<open>shell\<close> whose tiers it fills.  The spec's \<open>profile\<close> argument has no stated
  effect on the composition and is left out.
\<close>

definition generate ::
  "Ingredient list \<Rightarrow> string list \<Rightarrow> Formula \<Rightarrow> generate_error + Formula" where
  "generate catalog scentFamilies shell =
     (let ingredients = resolveFamilies catalog scentFamilies in
      if ingredients = [] then Inl NoResolvableIngredientsError
      else
        (case renormalize (shell\<lparr>topNotes := tierComponents 20 Top ingredients,
                                 middleNotes := tierComponents 35 Heart ingredients,
                                 baseNotes := tierComponents 45 Base ingredients\<rparr>) of
           None \<Rightarrow> Inl NoResolvableIngredientsError
         | Some f \<Rightarrow> Inr f))"

section \<open>Properties of the utilities\<close>

lemmas classify = isNaN_def isInfinite_def isZero_def isFinite_def
  signedInfinity_def signedZero_def

subsection \<open>Rounding\<close>





















subsection \<open>clamp\<close>




lemma clamp_examples:
  "clamp (Finite 15) (Finite 0) (Finite 10) = Finite 10"
  "clamp NegInfinity (Finite 0) (Finite 10) = Finite 0"
  "clamp NegZero (Finite 0) (Finite 0) = Finite 0"
  by (simp_all add: clamp_def Math_max_def Math_min_def js_lt_def classify)

subsection \<open>mapRange\<close>
















text \<open>
  Claim C5.  For valence and arousal in \<open>[-1, 1]\<close> the family mapping always returns
  one of five fixed, non-empty, ordered lists: the list of the quadrant the point
  lies in, and the neutral list exactly when a coordinate lies in the central band
  \<open>[-0.15, 0.15]\<close>.  The function is a closed expression of its two arguments, so it
  is total and deterministic.
\<close>

theorem getScentFamilies_total_quadrants:
  assumes "- 1 \<le> valence" "valence \<le> 1" "- 1 \<le> arousal" "arousal \<le> 1"
  shows "getScentFamilies valence arousal \<noteq> []
       \<and> getScentFamilies valence arousal \<in>
           {[''Citrus'', ''Fresh'', ''Fruity'', ''Sparkling''],
            [''Woody'', ''Floral'', ''Musky'', ''Amber''],
            [''Herbal'', ''Green'', ''Aquatic'', ''Aromatic''],
            [''Resinous'', ''Ambery'', ''Earthy'', ''Smoky''],
            [''Woody'', ''Aromatic'', ''Floral'', ''Balanced'']}
       \<and> (valence > 0.15 \<and> arousal > 0.15 \<longrightarrow>
            getScentFamilies valence arousal = [''Citrus'', ''Fresh'', ''Fruity'', ''Sparkling''])
       \<and> (valence > 0.15 \<and> arousal < - 0.15 \<longrightarrow>
            getScentFamilies valence arousal = [''Woody'', ''Floral'', ''Musky'', ''Amber''])
       \<and> (valence < - 0.15 \<and> arousal > 0.15 \<longrightarrow>
            getScentFamilies valence arousal = [''Herbal'', ''Green'', ''Aquatic'', ''Aromatic''])
       \<and> (valence < - 0.15 \<and> arousal < - 0.15 \<longrightarrow>
            getScentFamilies valence arousal = [''Resinous'', ''Ambery'', ''Earthy'', ''Smoky''])
       \<and> ((\<bar>valence\<bar> \<le> 0.15 \<or> \<bar>arousal\<bar> \<le> 0.15) \<longleftrightarrow>
            getScentFamilies valence arousal = [''Woody'', ''Aromatic'', ''Floral'', ''Balanced''])"
  by (auto simp add: getScentFamilies_def)

theorem getScentFamilies_total_quadrants_witness:
  "- 1 \<le> (0.5::real) \<and> (0.5::real) \<le> 1 \<and> (0.5::real) > 0.15
   \<and> getScentFamilies 0.5 0.5 \<noteq> []
   \<and> getScentFamilies 0.5 0.5 = [''Citrus'', ''Fresh'', ''Fruity'', ''Sparkling'']
   \<and> getScentFamilies 0.5 0.5 \<noteq> [''Woody'', ''Aromatic'', ''Floral'', ''Balanced'']"
proof -
  have lo: "- 1 \<le> (0.5::real)" and hi: "(0.5::real) \<le> 1" by simp_all
  show ?thesis
    using getScentFamilies_total_quadrants [OF lo hi lo hi] by simp
qed

text \<open>
  Claim C8.  \<open>getMoodLabel\<close> and \<open>getScentFamilies\<close> cut the valence/arousal plane into
  the same five regions: each label is returned exactly where the family list of the
  same quadrant is returned.
\<close>

theorem mood_label_family_same_partition:
  "(getMoodLabel valence arousal = ''Excited / Joyful'' \<longleftrightarrow>
      getScentFamilies valence arousal = [''Citrus'', ''Fresh'', ''Fruity'', ''Sparkling''])
   \<and> (getMoodLabel valence arousal = ''Calm / Content'' \<longleftrightarrow>
      getScentFamilies valence arousal = [''Woody'', ''Floral'', ''Musky'', ''Amber''])
   \<and> (getMoodLabel valence arousal = ''Tense / Anxious'' \<longleftrightarrow>
      getScentFamilies valence arousal = [''Herbal'', ''Green'', ''Aquatic'', ''Aromatic''])
   \<and> (getMoodLabel valence arousal = ''Melancholic / Sad'' \<longleftrightarrow>
      getScentFamilies valence arousal = [''Resinous'', ''Ambery'', ''Earthy'', ''Smoky''])
   \<and> (getMoodLabel valence arousal = ''Neutral / Balanced'' \<longleftrightarrow>
      getScentFamilies valence arousal = [''Woody'', ''Aromatic'', ''Floral'', ''Balanced''])"
  by (simp add: getMoodLabel_def getScentFamilies_def)

section \<open>Properties of the result page\<close>

subsection \<open>The formula in the state\<close>

lemma formula_step: "formula (step s e) = formula s"
  by (cases e) simp_all

lemma formula_foldl_step: "formula (foldl step s es) = formula s"
  by (induction es arbitrary: s) (simp_all add: formula_step)

lemma formula_afterEvents: "formula (afterEvents es) = sampleFormula"
  by (simp add: afterEvents_def formula_foldl_step initialState_def)

lemma rendered_after_timer: "rendered (afterEvents [TimerElapsed]) = Some sampleFormula"
  by (simp add: rendered_def afterEvents_def initialState_def)

lemma sampleFormula_tiers:
  "tierTotal (topNotes sampleFormula) = 16"
  "tierTotal (middleNotes sampleFormula) = 35"
  "tierTotal (baseNotes sampleFormula) = 40"
  by (simp_all add: tierTotal_def sampleFormula_def)

lemma sampleFormula_total: "totalConcentration sampleFormula = 91"
  by (simp add: totalConcentration_def sampleFormula_tiers)

text \<open>
  The sustainability score of the constant is the summed concentration of its
  ingredients flagged sustainable, which is their percentage only in a formula that
  totals 100.
\<close>

lemma sampleFormula_sustainable_sum:
  "sum_list (map concentration (filter sustainable
      (topNotes sampleFormula @ middleNotes sampleFormula @ baseNotes sampleFormula))) = 78"
  "sustainability (metrics sampleFormula) = 78"
  by (simp_all add: sampleFormula_def)

text \<open>
  Claim C1.  The claim asks every formula the program shows to total 100 within
  \<open>1e-6\<close>.  Whatever events the page has seen, the formula in its state is the constant,
  and its nine concentrations add up to 91.
\<close>

theorem displayed_formula_total_91:
  "rendered (afterEvents [TimerElapsed]) = Some sampleFormula
   \<and> totalConcentration (formula (afterEvents es)) = 91
   \<and> \<not> \<bar>totalConcentration (formula (afterEvents es)) - 100\<bar> \<le> 1 / 10 ^ 6"
  by (simp add: rendered_after_timer formula_afterEvents sampleFormula_total)

subsection \<open>The exported record\<close>

lemma sample_file_name:
  "replaceSpaceRuns False (toLowerCase ''Kyoto Morning Rain'') = ''kyoto-morning-rain''"
  by code_simp

lemma handleExport_sample:
  "handleExport NoItem NoItem ''2026-01-15T09:00:00.000Z'' sampleFormula =
     Inr \<lparr>download = ''aether-formula-kyoto-morning-rain.json'',
          content = JObject [
            (''formula'', stringify_formula sampleFormula),
            (''calibration'', JNull),
            (''neuroBrief'', JNull),
            (''exportedAt'', JString ''2026-01-15T09:00:00.000Z'')]\<rparr>"
proof -
  have "Formula.name sampleFormula = ''Kyoto Morning Rain''"
    by (simp add: sampleFormula_def)
  then show ?thesis
    by (simp add: handleExport_def parseOrNull_def sample_file_name)
qed

text \<open>The export fails only on a stored text that \<open>JSON.parse\<close> rejects.\<close>

lemma handleExport_fails_iff:
  "handleExport calibration neuroBrief exportedAt f = Inl SyntaxError
     \<longleftrightarrow> calibration = BadText \<or> neuroBrief = BadText"
  by (simp add: handleExport_def parseOrNull_def split: item.splits)

text \<open>
  Claim C2, as stated: the exported formula record has the fields \<open>topNotes\<close>,
  \<open>heartNotes\<close>, \<open>baseNotes\<close>, \<open>metrics\<close> with exactly the keys \<open>longevity\<close>, \<open>projection\<close>,
  \<open>sustainability\<close>, \<open>ifraCompliance\<close>, and \<open>physioCorrections\<close>.  The export of the
  page's formula with nothing stored has neither a \<open>heartNotes\<close> nor a
  \<open>physioCorrections\<close> field, and its metrics carry a fifth key, \<open>uniqueness\<close>.
\<close>

theorem handleExport_field_names_counterexample:
  "getProperty (content (projr (handleExport NoItem NoItem ''2026-01-15T09:00:00.000Z'' sampleFormula)))
       ''formula'' = Some (stringify_formula sampleFormula)
   \<and> ''heartNotes'' \<notin> set (objectKeys (stringify_formula sampleFormula))
   \<and> ''physioCorrections'' \<notin> set (objectKeys (stringify_formula sampleFormula))
   \<and> getProperty (stringify_formula sampleFormula) ''metrics''
       = Some (stringify_metrics (metrics sampleFormula))
   \<and> set (objectKeys (stringify_metrics (metrics sampleFormula)))
       \<noteq> {''longevity'', ''projection'', ''sustainability'', ''ifraCompliance''}"
proof -
  have "''uniqueness'' \<in> set (objectKeys (stringify_metrics (metrics sampleFormula)))"
    by (simp add: stringify_metrics_def)
  moreover have "''uniqueness'' \<notin> {''longevity'', ''projection'', ''sustainability'', ''ifraCompliance''}"
    by simp
  ultimately have "set (objectKeys (stringify_metrics (metrics sampleFormula)))
       \<noteq> {''longevity'', ''projection'', ''sustainability'', ''ifraCompliance''}"
    by metis
  then show ?thesis
    by (simp add: handleExport_sample stringify_formula_def)
qed

text \<open>
  Claim C2, amended.  Every record that \<open>handleExport\<close> writes holds the formula under
  \<open>formula\<close>, with exactly the fields \<open>name\<close>, \<open>description\<close>, \<open>topNotes\<close>, \<open>middleNotes\<close>,
  \<open>baseNotes\<close> and \<open>metrics\<close>.  Each tier is the ordered list of its notes, every note an
  object with exactly the keys \<open>name\<close>, \<open>concentration\<close>, \<open>sustainable\<close>; the metrics have
  exactly the keys \<open>longevity\<close>, \<open>projection\<close>, \<open>uniqueness\<close>, \<open>sustainability\<close>,
  \<open>ifraCompliance\<close>.  There is no \<open>physioCorrections\<close> field.
\<close>

theorem handleExport_field_names:
  assumes "handleExport calibration neuroBrief exportedAt f = Inr d"
  shows "objectKeys (content d) = [''formula'', ''calibration'', ''neuroBrief'', ''exportedAt'']
       \<and> getProperty (content d) ''formula'' = Some (stringify_formula f)
       \<and> objectKeys (stringify_formula f) =
           [''name'', ''description'', ''topNotes'', ''middleNotes'', ''baseNotes'', ''metrics'']
       \<and> getProperty (stringify_formula f) ''topNotes''
           = Some (JArray (map stringify_note (topNotes f)))
       \<and> getProperty (stringify_formula f) ''middleNotes''
           = Some (JArray (map stringify_note (middleNotes f)))
       \<and> getProperty (stringify_formula f) ''baseNotes''
           = Some (JArray (map stringify_note (baseNotes f)))
       \<and> (\<forall>n. objectKeys (stringify_note n) = [''name'', ''concentration'', ''sustainable''])
       \<and> getProperty (stringify_formula f) ''metrics'' = Some (stringify_metrics (metrics f))
       \<and> objectKeys (stringify_metrics (metrics f)) =
           [''longevity'', ''projection'', ''uniqueness'', ''sustainability'', ''ifraCompliance'']"
proof -
  from assms have "content d = JObject [
                      (''formula'', stringify_formula f),
                      (''calibration'', projr (parseOrNull calibration)),
                      (''neuroBrief'', projr (parseOrNull neuroBrief)),
                      (''exportedAt'', JString exportedAt)]"
    by (auto simp add: handleExport_def split: sum.splits)
  then show ?thesis
    by (simp add: stringify_formula_def stringify_note_def stringify_metrics_def)
qed

theorem handleExport_field_names_witness:
  "handleExport NoItem NoItem ''2026-01-15T09:00:00.000Z'' sampleFormula =
     Inr \<lparr>download = ''aether-formula-kyoto-morning-rain.json'',
          content = JObject [
            (''formula'', stringify_formula sampleFormula),
            (''calibration'', JNull),
            (''neuroBrief'', JNull),
            (''exportedAt'', JString ''2026-01-15T09:00:00.000Z'')]\<rparr>
   \<and> objectKeys (stringify_formula sampleFormula) =
       [''name'', ''description'', ''topNotes'', ''middleNotes'', ''baseNotes'', ''metrics'']
   \<and> getProperty (stringify_formula sampleFormula) ''middleNotes''
       = Some (JArray (map stringify_note (middleNotes sampleFormula)))
   \<and> objectKeys (stringify_metrics (metrics sampleFormula)) =
       [''longevity'', ''projection'', ''uniqueness'', ''sustainability'', ''ifraCompliance'']"
  using handleExport_field_names [OF handleExport_sample] handleExport_sample by simp

section \<open>Properties of renormalisation\<close>

lemma tierTotal_scale: "tierTotal (map (scaleNote k) ns) = k * tierTotal ns"
  by (induction ns) (simp_all add: tierTotal_def scaleNote_def algebra_simps)

lemma totalConcentration_scale:
  "totalConcentration (f\<lparr>topNotes := map (scaleNote k) (topNotes f),
                          middleNotes := map (scaleNote k) (middleNotes f),
                          baseNotes := map (scaleNote k) (baseNotes f)\<rparr>)
     = k * totalConcentration f"
  by (simp add: totalConcentration_def tierTotal_scale distrib_left)

lemma renormalize_defined:
  "(\<exists>g. renormalize f = Some g) \<longleftrightarrow> totalConcentration f \<noteq> 0"
  by (simp add: renormalize_def Let_def)

lemma renormalize_total:
  assumes "renormalize f = Some g"
  shows "totalConcentration g = 100"
proof -
  let ?t = "totalConcentration f"
  from assms have nz: "?t \<noteq> 0"
    by (auto simp add: renormalize_def Let_def split: if_splits)
  from assms nz have g: "g = f\<lparr>topNotes := map (scaleNote (100 / ?t)) (topNotes f),
                   middleNotes := map (scaleNote (100 / ?t)) (middleNotes f),
                   baseNotes := map (scaleNote (100 / ?t)) (baseNotes f)\<rparr>"
    by (simp add: renormalize_def Let_def)
  have "totalConcentration g = (100 / ?t) * ?t"
    unfolding g by (rule totalConcentration_scale)
  with nz show ?thesis by simp
qed

lemma scaleNote_one: "map (scaleNote 1) ns = ns"
  by (induction ns) (simp_all add: scaleNote_def)

lemma renormalize_at_100:
  assumes "totalConcentration f = 100"
  shows "renormalize f = Some f"
  using assms by (simp add: renormalize_def scaleNote_one)

lemma renormalize_twice:
  assumes "renormalize f = Some g"
  shows "renormalize g = Some g"
  using renormalize_total [OF assms] by (rule renormalize_at_100)

text \<open>
  Claim C6.  Renormalising a formula whose total concentration is already 100 returns
  the formula itself: every component keeps its concentration.
\<close>

theorem renormalize_normalized_unchanged:
  assumes "totalConcentration f = 100"
  shows "renormalize f = Some f
       \<and> map concentration (topNotes (the (renormalize f))) = map concentration (topNotes f)
       \<and> map concentration (middleNotes (the (renormalize f))) = map concentration (middleNotes f)
       \<and> map concentration (baseNotes (the (renormalize f))) = map concentration (baseNotes f)"
  using assms by (simp add: renormalize_def scaleNote_one)

theorem renormalize_normalized_unchanged_witness:
  "totalConcentration
     \<lparr>Formula.name = ''Pyramid'', description = ''One note in each tier'',
      topNotes = [\<lparr>Note.name = ''Yuzu'', concentration = 20, sustainable = True\<rparr>],
      middleNotes = [\<lparr>Note.name = ''Hinoki Wood'', concentration = 35, sustainable = True\<rparr>],
      baseNotes = [\<lparr>Note.name = ''White Musk'', concentration = 45, sustainable = True\<rparr>],
      metrics = metrics sampleFormula\<rparr> = 100
   \<and> renormalize
     \<lparr>Formula.name = ''Pyramid'', description = ''One note in each tier'',
      topNotes = [\<lparr>Note.name = ''Yuzu'', concentration = 20, sustainable = True\<rparr>],
      middleNotes = [\<lparr>Note.name = ''Hinoki Wood'', concentration = 35, sustainable = True\<rparr>],
      baseNotes = [\<lparr>Note.name = ''White Musk'', concentration = 45, sustainable = True\<rparr>],
      metrics = metrics sampleFormula\<rparr>
     = Some
     \<lparr>Formula.name = ''Pyramid'', description = ''One note in each tier'',
      topNotes = [\<lparr>Note.name = ''Yuzu'', concentration = 20, sustainable = True\<rparr>],
      middleNotes = [\<lparr>Note.name = ''Hinoki Wood'', concentration = 35, sustainable = True\<rparr>],
      baseNotes = [\<lparr>Note.name = ''White Musk'', concentration = 45, sustainable = True\<rparr>],
      metrics = metrics sampleFormula\<rparr>"
proof -
  have h: "totalConcentration
     \<lparr>Formula.name = ''Pyramid'', description = ''One note in each tier'',
      topNotes = [\<lparr>Note.name = ''Yuzu'', concentration = 20, sustainable = True\<rparr>],
      middleNotes = [\<lparr>Note.name = ''Hinoki Wood'', concentration = 35, sustainable = True\<rparr>],
      baseNotes = [\<lparr>Note.name = ''White Musk'', concentration = 45, sustainable = True\<rparr>],
      metrics = metrics sampleFormula\<rparr> = 100"
    by (simp add: totalConcentration_def tierTotal_def)
  show ?thesis
    using renormalize_normalized_unchanged [OF h] h by simp
qed

text \<open>A formula that is not normalised is changed: the constant of the result page.\<close>

lemma renormalize_sampleFormula:
  "map concentration (topNotes (the (renormalize sampleFormula)))
     = [800 / 91, 500 / 91, 300 / 91]"
  by (simp add: renormalize_def sampleFormula_total) (simp add: sampleFormula_def scaleNote_def)

section \<open>Properties of the generator\<close>

lemma tierTotal_const:
  "tierTotal (map (\<lambda>i. \<lparr>Note.name = nm i, concentration = c, sustainable = su i\<rparr>) xs)
     = real (length xs) * c"
  by (induction xs) (simp_all add: tierTotal_def algebra_simps)

lemma tierTotal_tierComponents:
  "tierTotal (tierComponents share tier ings)
     = (if tierComponents share tier ings = [] then 0 else share)"
  by (simp add: tierComponents_def Let_def tierTotal_const)

lemma tierComponents_nonneg: "0 \<le> share \<Longrightarrow> 0 \<le> tierTotal (tierComponents share tier ings)"
  by (simp add: tierTotal_tierComponents)

lemma some_tier_filled:
  assumes "ings \<noteq> []"
  shows "tierComponents a Top ings \<noteq> [] \<or> tierComponents b Heart ings \<noteq> []
       \<or> tierComponents c Base ings \<noteq> []"
proof -
  from assms obtain i rest where "ings = i # rest" by (cases ings) auto
  then show ?thesis
    by (cases "tierAffinity i") (simp_all add: tierComponents_def Let_def)
qed

lemma assigned_total_pos:
  assumes "ings \<noteq> []"
  shows "0 < totalConcentration (shell\<lparr>topNotes := tierComponents 20 Top ings,
                                 middleNotes := tierComponents 35 Heart ings,
                                 baseNotes := tierComponents 45 Base ings\<rparr>)"
  using some_tier_filled [OF assms, of 20 35 45]
  by (auto simp add: totalConcentration_def tierTotal_tierComponents)

lemma generate_defined:
  "(\<exists>f. generate catalog scentFamilies shell = Inr f)
     \<longleftrightarrow> resolveFamilies catalog scentFamilies \<noteq> []"
proof (cases "resolveFamilies catalog scentFamilies = []")
  case True
  then show ?thesis by (simp add: generate_def)
next
  case False
  from assigned_total_pos [OF False, of shell]
  have "\<exists>g. renormalize (shell\<lparr>topNotes := tierComponents 20 Top (resolveFamilies catalog scentFamilies),
                                 middleNotes := tierComponents 35 Heart (resolveFamilies catalog scentFamilies),
                                 baseNotes := tierComponents 45 Base (resolveFamilies catalog scentFamilies)\<rparr>) = Some g"
    by (simp only: renormalize_defined)
  with False show ?thesis by (auto simp add: generate_def Let_def)
qed






end
